theory Spec2Isabelle
  imports Main "HOL-Library.AList" "HOL-Library.Word"
begin

section \<open>Python values used by the serial host\<close>

text \<open>
  The host module \<^verbatim>\<open>proxy_io/serial_host.py\<close> works on Python strings, lists of
  strings and dictionaries. Strings are modelled as \<^typ>\<open>string\<close>; the wire protocol
  is ASCII, and the characters that \<^verbatim>\<open>str.split()\<close> treats as white space are
  those of \<^verbatim>\<open>str.isspace\<close> below code point 256. Exceptions are values of
  \<open>exn\<close>; a function that may raise returns \<open>exn + 'a\<close>.
\<close>

datatype exn =
    KeyError string
  | IndexError
  | TypeError
  | AttributeError
  | PortNotOpenError

definition isspace :: "char \<Rightarrow> bool" where
  "isspace c = ((of_char c :: nat) \<in> {9, 10, 11, 12, 13, 28, 29, 30, 31, 32, 133, 160})"

text \<open>
  \<^verbatim>\<open>s.split()\<close>: the maximal runs of characters that are not white space, in
  order. The first argument is the run read so far.
\<close>

fun split_from :: "string \<Rightarrow> string \<Rightarrow> string list" where
  "split_from word [] = (if word = [] then [] else [word])"
| "split_from word (c # cs) =
     (if isspace c then (if word = [] then [] else [word]) @ split_from [] cs
      else split_from (word @ [c]) cs)"

definition py_split :: "string \<Rightarrow> string list" where
  "py_split s = split_from [] s"

text \<open>\<^verbatim>\<open>sep.join(parts)\<close>.\<close>

fun py_join :: "string \<Rightarrow> string list \<Rightarrow> string" where
  "py_join sep [] = []"
| "py_join sep [x] = x"
| "py_join sep (x # y # ys) = x @ sep @ py_join sep (y # ys)"

definition LF :: string where
  "LF = [CHR 0x0A]"

definition CRLF :: string where
  "CRLF = [CHR 0x0D, CHR 0x0A]"

section \<open>The command enumeration\<close>

datatype ConnectionType = SPI | DIO | RELAY

datatype SerialCommand =
    VERSION
  | HELP
  | DIO_DIRECTION
  | DIO_LIST
  | DIO_CLEAR
  | DIO_SET
  | DIO_READ
  | RELAY_LIST
  | RELAY_SET
  | RELAY_CLEAR
  | SPI_SEND
  | SPI_RECEIVE
  | ERROR
  | EXCEPTION

text \<open>\<^verbatim>\<open>member.name\<close>.\<close>

fun name :: "SerialCommand \<Rightarrow> string" where
  "name VERSION = ''VERSION''"
| "name HELP = ''HELP''"
| "name DIO_DIRECTION = ''DIO_DIRECTION''"
| "name DIO_LIST = ''DIO_LIST''"
| "name DIO_CLEAR = ''DIO_CLEAR''"
| "name DIO_SET = ''DIO_SET''"
| "name DIO_READ = ''DIO_READ''"
| "name RELAY_LIST = ''RELAY_LIST''"
| "name RELAY_SET = ''RELAY_SET''"
| "name RELAY_CLEAR = ''RELAY_CLEAR''"
| "name SPI_SEND = ''SPI_SEND''"
| "name SPI_RECEIVE = ''SPI_RECEIVE''"
| "name ERROR = ''ERROR''"
| "name EXCEPTION = ''EXCEPTION''"

definition members :: "SerialCommand list" where
  "members = [VERSION, HELP, DIO_DIRECTION, DIO_LIST, DIO_CLEAR, DIO_SET, DIO_READ,
              RELAY_LIST, RELAY_SET, RELAY_CLEAR, SPI_SEND, SPI_RECEIVE, ERROR, EXCEPTION]"


text \<open>\<^verbatim>\<open>SerialCommand[key]\<close>: the member of that name, or \<^verbatim>\<open>KeyError(key)\<close>.\<close>

definition getitem :: "string \<Rightarrow> exn + SerialCommand" where
  "getitem key =
     (case find (\<lambda>m. name m = key) members of
        None \<Rightarrow> Inl (KeyError key)
      | Some m \<Rightarrow> Inr m)"

section \<open>The response classifier\<close>

text \<open>
  The response is a Python \<^verbatim>\<open>dict\<close> with string keys, kept in insertion order. Its
  values are an enumeration member, a string, or a dictionary from strings to strings.
\<close>

datatype pyval =
    Member SerialCommand
  | Str string
  | Dict "(string \<times> string) list"

type_synonym response = "(string \<times> pyval) list"

text \<open>
  \<^verbatim>\<open>
  if "ERROR:" in response_fields[:2]:
      command = SerialCommand.ERROR
      data = {"error": text_response[0]}
  \<close>
  The bindings of \<^verbatim>\<open>command\<close> and \<^verbatim>\<open>data\<close> after this statement; \<open>None\<close> when it
  binds nothing.
\<close>

definition error_marker :: "string list \<Rightarrow> string \<Rightarrow> (SerialCommand \<times> pyval) option" where
  "error_marker response_fields line =
     (if ''ERROR:'' \<in> set (take 2 response_fields)
      then Some (ERROR, Dict [(''error'', line)])
      else None)"

text \<open>
  \<^verbatim>\<open>
  if "EXCEPTION:" in response_fields[:2]:
      command = SerialCommand.EXCEPTION
      data = {"exception": text_response[0]}
  else:
      command = SerialCommand[response_fields[0]]
      data = " ".join(response_fields[1:])
  \<close>
  This is a second \<^verbatim>\<open>if\<close>, not an \<^verbatim>\<open>elif\<close>: both of its branches bind
  \<^verbatim>\<open>command\<close> and \<^verbatim>\<open>data\<close> again, so the bindings \<open>bound\<close> that the statement
  before it made are overwritten or, when the \<^verbatim>\<open>else\<close> branch raises, lost.
\<close>

definition exception_marker ::
  "(SerialCommand \<times> pyval) option \<Rightarrow> string list \<Rightarrow> string \<Rightarrow> exn + SerialCommand \<times> pyval" where
  "exception_marker bound response_fields line =
     (if ''EXCEPTION:'' \<in> set (take 2 response_fields)
      then Inr (EXCEPTION, Dict [(''exception'', line)])
      else (case response_fields of
              [] \<Rightarrow> Inl IndexError
            | field # fields \<Rightarrow>
                (case getitem field of
                   Inl e \<Rightarrow> Inl e
                 | Inr command \<Rightarrow> Inr (command, Str (py_join '' '' fields)))))"

definition classify :: "string list \<Rightarrow> exn + SerialCommand \<times> pyval" where
  "classify text_response =
     (case text_response of
        [] \<Rightarrow> Inr (ERROR, Dict [(''error'', ''No response from MCU'')])
      | line # following \<Rightarrow>
          (let response_fields = py_split line
           in exception_marker (error_marker response_fields line) response_fields line))"

text \<open>\<^verbatim>\<open>SharedSerial.clean_response\<close> on a list of lines.\<close>

definition clean_response :: "string list \<Rightarrow> exn + response" where
  "clean_response text_response =
     (case classify text_response of
        Inl e \<Rightarrow> Inl e
      | Inr (command, data) \<Rightarrow>
          (let response = [(''command'', Member command), (''data'', data)]
           in Inr (if length text_response > 1
                   then response @ [(''extension'', Str (py_join LF (tl text_response)))]
                   else response)))"

section \<open>Requests, queue items and the serial connection\<close>

text \<open>
  What the worker puts on a response queue is a list of decoded lines, except on the
  path of a failed write, where it is a bare string; the caller also substitutes the
  empty string when its queue stays empty. \<^verbatim>\<open>clean_response\<close> indexes, measures
  and slices its argument, and on a Python string these give its one-character
  strings.
\<close>

datatype item =
    Lines "string list"
  | Text string

fun elements :: "item \<Rightarrow> string list" where
  "elements (Lines ls) = ls"
| "elements (Text s) = map (\<lambda>c. [c]) s"

definition clean_response_item :: "item \<Rightarrow> exn + response" where
  "clean_response_item text_response = clean_response (elements text_response)"

text \<open>
  The payload of a request is text (\<^verbatim>\<open>DigitalIO\<close>, \<^verbatim>\<open>RelayIO\<close>) or a byte string
  (\<^verbatim>\<open>SpiIo\<close>). The request is the dictionary with the keys \<^verbatim>\<open>"service"\<close>,
  \<^verbatim>\<open>"command"\<close> and \<^verbatim>\<open>"data"\<close>.
\<close>

datatype payload =
    TextData string
  | BytesData "8 word list"

record cmd_dict =
  cmd_service :: ConnectionType
  cmd_command :: SerialCommand
  cmd_data :: payload

text \<open>
  \<^verbatim>\<open>cmd_dict["command"].name + " " + cmd_dict["data"] + "\r\n"\<close>: Python concatenates
  a \<^verbatim>\<open>str\<close> with a \<^verbatim>\<open>str\<close> only, and raises \<^verbatim>\<open>TypeError\<close> on \<^verbatim>\<open>bytes\<close>.
\<close>

definition serial_command_str :: "cmd_dict \<Rightarrow> exn + string" where
  "serial_command_str cmd =
     (case cmd_data cmd of
        TextData d \<Rightarrow> Inr (name (cmd_command cmd) @ '' '' @ d @ CRLF)
      | BytesData b \<Rightarrow> Inl TypeError)"

text \<open>
  The serial connection as the worker sees it. \<open>incoming\<close> lists what successive looks
  at the port find: each entry is the decoded lines that \<^verbatim>\<open>readlines()\<close> returns at
  that look, the empty entry meaning that nothing is waiting; once the list is used
  up the port stays silent. \<open>written\<close> collects the lines written.
\<close>

record Serial =
  is_open :: bool
  incoming :: "string list list"
  written :: "string list"

text \<open>
  \<^verbatim>\<open>
  for _interval in range(20):
      if serial_connection.in_waiting:
          response_bytes = serial_connection.readlines()
          response_text = [line.decode("UTF-8") for line in response_bytes]
          if response_text[0] == serial_command_str:
              _commandecho = response_text.pop(0)
          break
      time.sleep(0.1)
  else:
      response_text = ["TIMEOUT"]
  \<close>
  The first argument counts the intervals left.
\<close>

fun poll :: "nat \<Rightarrow> string \<Rightarrow> Serial \<Rightarrow> item \<times> Serial" where
  "poll 0 command_str conn = (Lines [''TIMEOUT''], conn)"
| "poll (Suc intervals) command_str conn =
     (case incoming conn of
        [] \<Rightarrow> poll intervals command_str conn
      | response_text # later \<Rightarrow>
          if response_text = [] then poll intervals command_str (conn\<lparr>incoming := later\<rparr>)
          else (Lines (if hd response_text = command_str then tl response_text
                       else response_text),
                conn\<lparr>incoming := later\<rparr>))"

text \<open>
  The write and what follows it: \<^verbatim>\<open>write\<close> raises \<^verbatim>\<open>PortNotOpenError\<close> on a port
  that is not open, and the handler binds \<^verbatim>\<open>response_text\<close> to a string.
\<close>

definition transaction :: "string \<Rightarrow> Serial \<Rightarrow> item \<times> Serial" where
  "transaction command_str conn =
     (if \<not> is_open conn
      then (Text ''ERROR: Cannot send DIO command as serial port not open.'', conn)
      else poll 20 command_str (conn\<lparr>written := written conn @ [command_str]\<rparr>))"

section \<open>The worker, the channels and the table of workers\<close>

text \<open>
  Objects that are shared by reference live in a store: the worker objects in
  \<open>interfaces\<close>, the \<^verbatim>\<open>Queue\<close> objects in \<open>queues\<close>, and a reference is the position
  of the object. Objects are never removed, so a reference that was handed out stays
  valid. \<open>serial_interfaces\<close> is the class attribute of \<^verbatim>\<open>SharedSerial\<close>, a dictionary
  from the port to its worker.

  The thread of a worker is \<open>Running\<close> between \<^verbatim>\<open>start()\<close> and the end of \<^verbatim>\<open>run()\<close>,
  which it reaches by leaving the loop (\<open>Finished\<close>) or by an exception that nothing
  catches (\<open>Raised\<close>); \<open>serial_connection\<close> is the connection that \<^verbatim>\<open>run()\<close> holds in
  its \<^verbatim>\<open>with\<close> block, closed when the block is left either way.
\<close>

datatype thread_state = Unstarted | Running | Finished | Raised exn

record SerialInterface =
  serial_port :: string
  alive :: bool
  input_q :: "cmd_dict list"
  service_qs :: "(ConnectionType \<times> nat) list"
  next_response_q :: "nat option"
  thread :: thread_state
  serial_connection :: "Serial option"

record SharedSerial =
  shared_port :: string
  shared_service :: ConnectionType
  response_q :: nat
  serial_interface :: nat

record world =
  serial_interfaces :: "(string \<times> nat) list"
  interfaces :: "SerialInterface list"
  queues :: "item list list"

definition no_objects :: world where
  "no_objects = \<lparr>serial_interfaces = [], interfaces = [], queues = []\<rparr>"

definition set_interface :: "nat \<Rightarrow> SerialInterface \<Rightarrow> world \<Rightarrow> world" where
  "set_interface i self w = w\<lparr>interfaces := (interfaces w)[i := self]\<rparr>"

text \<open>\<^verbatim>\<open>Queue()\<close>, \<^verbatim>\<open>q.put(x)\<close>, and \<^verbatim>\<open>q.get(True, timeout)\<close> with \<open>None\<close> for \<^verbatim>\<open>Empty\<close>.\<close>

definition new_queue :: "world \<Rightarrow> nat \<times> world" where
  "new_queue w = (length (queues w), w\<lparr>queues := queues w @ [[]]\<rparr>)"

definition put :: "nat \<Rightarrow> item \<Rightarrow> world \<Rightarrow> world" where
  "put q x w = w\<lparr>queues := (queues w)[q := queues w ! q @ [x]]\<rparr>"

definition get :: "nat \<Rightarrow> world \<Rightarrow> item option \<times> world" where
  "get q w =
     (case queues w ! q of
        [] \<Rightarrow> (None, w)
      | x # waiting \<Rightarrow> (Some x, w\<lparr>queues := (queues w)[q := waiting]\<rparr>))"

definition SerialInterface_init :: "string \<Rightarrow> SerialInterface" where
  "SerialInterface_init port =
     \<lparr>serial_port = port, alive = False, input_q = [], service_qs = [],
      next_response_q = None, thread = Unstarted, serial_connection = None\<rparr>"

text \<open>
  \<^verbatim>\<open>start()\<close>: the thread enters \<^verbatim>\<open>run()\<close>, sets \<^verbatim>\<open>alive\<close> and holds the connection
  \<open>conn\<close> that \<^verbatim>\<open>serial_for_url\<close> gave it.
\<close>

definition start :: "Serial \<Rightarrow> SerialInterface \<Rightarrow> SerialInterface" where
  "start conn self = self\<lparr>alive := True, thread := Running, serial_connection := Some conn\<rparr>"

definition register :: "ConnectionType \<Rightarrow> nat \<Rightarrow> SerialInterface \<Rightarrow> SerialInterface" where
  "register service service_q self =
     self\<lparr>service_qs := AList.update service service_q (service_qs self)\<rparr>"

fun service_repr :: "ConnectionType \<Rightarrow> string" where
  "service_repr SPI = ''ConnectionType.SPI''"
| "service_repr DIO = ''ConnectionType.DIO''"
| "service_repr RELAY = ''ConnectionType.RELAY''"

text \<open>An exception that leaves \<^verbatim>\<open>run()\<close>: the \<^verbatim>\<open>with\<close> block closes the connection.\<close>

definition leave_run :: "thread_state \<Rightarrow> Serial \<Rightarrow> SerialInterface \<Rightarrow> SerialInterface" where
  "leave_run how conn self =
     self\<lparr>thread := how, serial_connection := Some (conn\<lparr>is_open := False\<rparr>)\<rparr>"

text \<open>
  One pass of the loop of \<^verbatim>\<open>run()\<close> when the input queue is empty:
  \<^verbatim>\<open>
  except (Empty, TimeoutError):
      response_bytes = serial_connection.readlines()
      response_text = [line.decode("UTF-8") for line in response_bytes]
      if response_text:
          self.next_response_q.put(response_text)
  \<close>
  Reading a port that is not open raises, and so does \<^verbatim>\<open>put\<close> on \<^verbatim>\<open>None\<close>.
\<close>

definition unrelated_output :: "nat \<Rightarrow> SerialInterface \<Rightarrow> Serial \<Rightarrow> world \<Rightarrow> world" where
  "unrelated_output i self conn w =
     (if \<not> is_open conn then set_interface i (leave_run (Raised PortNotOpenError) conn self) w
      else (case incoming conn of
              [] \<Rightarrow> w
            | response_text # later \<Rightarrow>
                (let conn' = conn\<lparr>incoming := later\<rparr>;
                     self' = self\<lparr>serial_connection := Some conn'\<rparr>
                 in if response_text = [] then set_interface i self' w
                    else (case next_response_q self of
                            None \<Rightarrow>
                              set_interface i (leave_run (Raised AttributeError) conn' self) w
                          | Some q \<Rightarrow> put q (Lines response_text) (set_interface i self' w)))))"

text \<open>
  One pass of the loop when a request \<open>cmd\<close> was taken from the input queue, \<open>pending\<close>
  being the requests behind it:
  \<^verbatim>\<open>
  else:
      self.next_response_q = self.service_qs[cmd_dict["service"]]
      serial_command_str = cmd_dict["command"].name + " " + cmd_dict["data"] + "\r\n"
      try:
          serial_connection.write(bytes(serial_command_str, encoding="UTF-8"))
      except PortNotOpenError:
          response_text = "ERROR: Cannot send DIO command as serial port not open."
      else:
          for _interval in range(20): ...
      self.next_response_q.put(response_text)
  \<close>
\<close>

definition serve :: "nat \<Rightarrow> SerialInterface \<Rightarrow> Serial \<Rightarrow> cmd_dict \<Rightarrow> cmd_dict list \<Rightarrow> world \<Rightarrow> world" where
  "serve i self conn cmd pending w =
     (case map_of (service_qs self) (cmd_service cmd) of
        None \<Rightarrow>
          set_interface i
            (leave_run (Raised (KeyError (service_repr (cmd_service cmd)))) conn
               (self\<lparr>input_q := pending\<rparr>)) w
      | Some q \<Rightarrow>
          (let self' = self\<lparr>input_q := pending, next_response_q := Some q\<rparr>
           in case serial_command_str cmd of
                Inl e \<Rightarrow> set_interface i (leave_run (Raised e) conn self') w
              | Inr command_str \<Rightarrow>
                  (case transaction command_str conn of
                     (response_text, conn') \<Rightarrow>
                       put q response_text
                         (set_interface i (self'\<lparr>serial_connection := Some conn'\<rparr>) w))))"

text \<open>
  One pass of \<^verbatim>\<open>while self.alive:\<close> by the thread of worker \<open>i\<close>. A thread that is not
  running does nothing; a running thread that finds \<^verbatim>\<open>alive\<close> cleared leaves the loop
  and the \<^verbatim>\<open>with\<close> block.
\<close>

definition run_iteration :: "nat \<Rightarrow> world \<Rightarrow> world" where
  "run_iteration i w =
     (let self = interfaces w ! i
      in case (thread self, serial_connection self) of
           (Running, Some conn) \<Rightarrow>
             if \<not> alive self then set_interface i (leave_run Finished conn self) w
             else (case input_q self of
                     [] \<Rightarrow> unrelated_output i self conn w
                   | cmd # pending \<Rightarrow> serve i self conn cmd pending w)
         | _ \<Rightarrow> w)"

text \<open>
  \<^verbatim>\<open>SerialInterface.close\<close>: clear \<^verbatim>\<open>alive\<close> and \<^verbatim>\<open>join\<close> the thread, which is
  at the test of its loop.
\<close>

definition close :: "nat \<Rightarrow> world \<Rightarrow> world" where
  "close i w = run_iteration i (set_interface i ((interfaces w ! i)\<lparr>alive := False\<rparr>) w)"

text \<open>
  \<^verbatim>\<open>
  def close_service(self, service):
      _removed = self.service_qs.pop(service, None)
      if not self.service_qs:
          self.close()
  \<close>
\<close>

definition close_service :: "ConnectionType \<Rightarrow> nat \<Rightarrow> world \<Rightarrow> world" where
  "close_service service i w =
     (let self = interfaces w ! i;
          w' = set_interface i (self\<lparr>service_qs := AList.delete service (service_qs self)\<rparr>) w
      in if service_qs (interfaces w' ! i) = [] then close i w' else w')"

text \<open>
  \<^verbatim>\<open>SharedSerial.obtain_serial_interface\<close>. A worker is made and started only for a
  port that is not yet a key of the table; \<open>conn\<close> is the connection its thread opens.
\<close>

definition obtain_serial_interface ::
  "string \<Rightarrow> ConnectionType \<Rightarrow> nat \<Rightarrow> Serial \<Rightarrow> world \<Rightarrow> nat \<times> world" where
  "obtain_serial_interface port service service_q conn w =
     (let w' = (case map_of (serial_interfaces w) port of
                  None \<Rightarrow>
                    w\<lparr>interfaces := interfaces w @ [start conn (SerialInterface_init port)],
                      serial_interfaces :=
                        AList.update port (length (interfaces w)) (serial_interfaces w)\<rparr>
                | Some i \<Rightarrow> w)
      in case map_of (serial_interfaces w') port of
           Some i \<Rightarrow> (i, set_interface i (register service service_q (interfaces w' ! i)) w')
         | None \<Rightarrow> (length (interfaces w'), w'))"

text \<open>\<^verbatim>\<open>SharedSerial(serial_port, service)\<close>.\<close>

definition SharedSerial_init ::
  "string \<Rightarrow> ConnectionType \<Rightarrow> Serial \<Rightarrow> world \<Rightarrow> SharedSerial \<times> world" where
  "SharedSerial_init port service conn w =
     (case new_queue w of
        (q, w1) \<Rightarrow>
          (case obtain_serial_interface port service q conn w1 of
             (i, w2) \<Rightarrow>
               (\<lparr>shared_port = port, shared_service = service, response_q = q,
                 serial_interface = i\<rparr>, w2)))"

text \<open>
  \<^verbatim>\<open>SharedSerial.close_service\<close> looks the worker up in the table by the port of the
  channel.
\<close>

definition SharedSerial_close_service ::
  "SharedSerial \<Rightarrow> ConnectionType \<Rightarrow> world \<Rightarrow> exn + world" where
  "SharedSerial_close_service self service w =
     (case map_of (serial_interfaces w) (shared_port self) of
        None \<Rightarrow> Inl (KeyError (shared_port self))
      | Some i \<Rightarrow> Inr (close_service service i w))"

text \<open>
  \<^verbatim>\<open>
  def handle_command(self, command, data):
      message_to_send = {"service": self.service, "command": command, "data": data}
      self.serial_interface.input_q.put(message_to_send)
      try:
          raw_response = self.response_q.get(True, 10)
      except queue.Empty:
          raw_response = ""
      cleaned = self.clean_response(raw_response)
      ...
      return cleaned
  \<close>
  While the caller waits on its queue the thread of the worker makes its pass of the
  loop; the caller then finds an item on its queue or, after its ceiling of ten
  seconds, none.
\<close>

definition submit :: "SharedSerial \<Rightarrow> SerialCommand \<Rightarrow> payload \<Rightarrow> world \<Rightarrow> world" where
  "submit self command data w =
     (let message_to_send =
            \<lparr>cmd_service = shared_service self, cmd_command = command, cmd_data = data\<rparr>;
          worker = interfaces w ! serial_interface self
      in set_interface (serial_interface self)
           (worker\<lparr>input_q := input_q worker @ [message_to_send]\<rparr>) w)"

definition handle_command ::
  "SharedSerial \<Rightarrow> SerialCommand \<Rightarrow> payload \<Rightarrow> world \<Rightarrow> (exn + response) \<times> world" where
  "handle_command self command data w =
     (case get (response_q self) (run_iteration (serial_interface self) (submit self command data w)) of
        (got, w') \<Rightarrow>
          (let raw_response = (case got of None \<Rightarrow> Text [] | Some lines \<Rightarrow> lines)
           in (clean_response_item raw_response, w')))"

text \<open>\<^verbatim>\<open>SpiIo.send_message\<close> passes its byte string on as the data of the request.\<close>

definition send_message :: "SharedSerial \<Rightarrow> 8 word list \<Rightarrow> world \<Rightarrow> (exn + response) \<times> world" where
  "send_message shared_serial message w =
     handle_command shared_serial SPI_SEND (BytesData message) w"

text \<open>
  The states the program reaches: channels are constructed, requests are handled and
  services are closed, one call after the other, each on a channel that was
  constructed before; between the calls the thread of any worker may make passes of
  its loop.
\<close>

inductive reachable :: "world \<Rightarrow> SharedSerial list \<Rightarrow> bool" where
  initial: "reachable no_objects []"
| construct:
    "reachable w channels \<Longrightarrow> SharedSerial_init port service conn w = (self, w') \<Longrightarrow>
     reachable w' (self # channels)"
| request:
    "reachable w channels \<Longrightarrow> self \<in> set channels \<Longrightarrow>
     handle_command self command data w = (result, w') \<Longrightarrow> reachable w' channels"
| closing:
    "reachable w channels \<Longrightarrow> self \<in> set channels \<Longrightarrow>
     SharedSerial_close_service self service w = Inr w' \<Longrightarrow> reachable w' channels"
| pass:
    "reachable w channels \<Longrightarrow> i < length (interfaces w) \<Longrightarrow>
     reachable (run_iteration i w) channels"

section \<open>Properties of the state\<close>

text \<open>
  A worker has left \<^verbatim>\<open>run()\<close>: its thread is not running and the connection, if one
  was opened, is closed.
\<close>

definition released :: "SerialInterface \<Rightarrow> bool" where
  "released self =
     (thread self \<noteq> Running
      \<and> (case serial_connection self of None \<Rightarrow> True | Some conn \<Rightarrow> \<not> is_open conn))"

text \<open>A running thread holds a connection; any other has released it.\<close>

definition thread_consistent :: "SerialInterface \<Rightarrow> bool" where
  "thread_consistent self =
     (if thread self = Running then serial_connection self \<noteq> None else released self)"

definition threads_ok :: "world \<Rightarrow> bool" where
  "threads_ok w = (\<forall>self \<in> set (interfaces w). thread_consistent self)"

text \<open>
  The table of workers holds, for each port, the reference of the worker object of
  that port, and no worker object is missing from it.
\<close>

definition table_matches :: "world \<Rightarrow> bool" where
  "table_matches w =
     (\<forall>port i. map_of (serial_interfaces w) port = Some i
        \<longleftrightarrow> i < length (interfaces w) \<and> serial_port (interfaces w ! i) = port)"

text \<open>Every channel holds the worker that the table has for the port of the channel.\<close>

definition channels_ok :: "world \<Rightarrow> SharedSerial list \<Rightarrow> bool" where
  "channels_ok w channels =
     (\<forall>c \<in> set channels.
        map_of (serial_interfaces w) (shared_port c) = Some (serial_interface c))"

text \<open>Two states with the same table and the same ports of the worker objects.\<close>

definition same_table :: "world \<Rightarrow> world \<Rightarrow> bool" where
  "same_table w w' =
     (serial_interfaces w' = serial_interfaces w
      \<and> map serial_port (interfaces w') = map serial_port (interfaces w))"

section \<open>Test benches\<close>

text \<open>
  The fixtures of \<^verbatim>\<open>test/test_serial.py\<close> construct the channels on one port of a
  fresh process; here the device behind the port is simulated by what the port sees.
\<close>

definition SERIAL_INTERFACE :: string where
  "SERIAL_INTERFACE = ''/dev/ttyACM0''"

definition port_with :: "string list list \<Rightarrow> Serial" where
  "port_with seen = \<lparr>is_open = True, incoming = seen, written = []\<rparr>"

definition dio_interface :: "Serial \<Rightarrow> SharedSerial \<times> world" where
  "dio_interface conn = SharedSerial_init SERIAL_INTERFACE DIO conn no_objects"

definition spi_interface :: "Serial \<Rightarrow> SharedSerial \<times> world" where
  "spi_interface conn = SharedSerial_init SERIAL_INTERFACE SPI conn no_objects"

text \<open>A digital channel and then an SPI channel on the same, silent port.\<close>

definition dio_and_spi :: "SharedSerial \<times> SharedSerial \<times> world" where
  "dio_and_spi =
     (case dio_interface (port_with []) of
        (dio, w) \<Rightarrow>
          (case SharedSerial_init SERIAL_INTERFACE SPI (port_with []) w of
             (spi, w') \<Rightarrow> (dio, spi, w')))"

text \<open>
  A digital channel on a port that stays silent for twenty looks and only then shows
  the reply to \<^verbatim>\<open>VERSION\<close>.
\<close>

definition dio_silent :: "SharedSerial \<times> world" where
  "dio_silent = dio_interface (port_with (replicate 20 [] @ [[''VERSION 0.0.1'' @ CRLF]]))"

text \<open>A digital channel on a connection that is not open.\<close>

definition dio_not_open :: "SharedSerial \<times> world" where
  "dio_not_open = dio_interface \<lparr>is_open = False, incoming = [], written = []\<rparr>"

text \<open>
  A digital channel on a device that echoes \<^verbatim>\<open>DIO_SET 3 true\<close> and then replies with
  the same words, at the second look.
\<close>

definition dio_echoing :: "SharedSerial \<times> world" where
  "dio_echoing =
     dio_interface (port_with [[], [''DIO_SET 3 true'' @ CRLF, ''DIO_SET 3 true'' @ CRLF]])"

text \<open>An SPI channel on a device that is ready to report the bytes \<^verbatim>\<open>de ad\<close> as sent.\<close>

definition spi_ready :: "SharedSerial \<times> world" where
  "spi_ready = spi_interface (port_with [[''SPI_SEND Sent: de ad'' @ CRLF]])"

section \<open>Facts about the enumeration\<close>

lemma getitem_name: "getitem (name m) = Inr m"
  by (cases m) (simp_all add: getitem_def members_def)


lemma getitem_unknown:
  "\<forall>m \<in> set members. name m \<noteq> key \<Longrightarrow> getitem key = Inl (KeyError key)"
  by (auto simp: getitem_def find_None_iff split: option.splits)

section \<open>The classifier on a single line\<close>

text \<open>
  Claim C1. Let the first token of a line be the name of a member \<open>V\<close> of the
  enumeration, in particular of one of the twelve verbs, and let the line be well
  formed in that the marker \<^verbatim>\<open>EXCEPTION:\<close> is not among its first two tokens. Then the
  classifier applied to that single line returns the dictionary with exactly the
  entries \<^verbatim>\<open>command\<close> \<open>= V\<close> and \<^verbatim>\<open>data\<close>, the remaining tokens joined by one space;
  there is no \<^verbatim>\<open>extension\<close> entry.
\<close>

theorem clean_response_verb:
  assumes "py_split line = name V # rest"
      and "''EXCEPTION:'' \<notin> set (take 2 (py_split line))"
  shows "clean_response [line]
           = Inr [(''command'', Member V), (''data'', Str (py_join '' '' rest))]"
  using assms
  by (simp add: clean_response_def classify_def exception_marker_def getitem_name)

text \<open>
  Witness for C1: the reply \<^verbatim>\<open>DIO_SET 3   true\<close>, whose tokens are separated by runs of
  blanks.
\<close>

theorem clean_response_verb_witness:
  "py_split ''DIO_SET 3   true'' = name DIO_SET # [''3'', ''true'']
   \<and> ''EXCEPTION:'' \<notin> set (take 2 (py_split ''DIO_SET 3   true''))
   \<and> clean_response [''DIO_SET 3   true'']
       = Inr [(''command'', Member DIO_SET), (''data'', Str ''3 true'')]"
proof -
  have tokens: "py_split ''DIO_SET 3   true'' = name DIO_SET # [''3'', ''true'']"
    by (simp add: py_split_def isspace_def)
  have marker: "''EXCEPTION:'' \<notin> set (take 2 (py_split ''DIO_SET 3   true''))"
    by (simp add: tokens)
  show ?thesis
    using clean_response_verb [OF tokens marker] tokens marker by simp
qed

text \<open>
  Claim C2 says that a first line with \<^verbatim>\<open>ERROR:\<close> among its first two tokens is
  classified as \<open>ERROR\<close> with the line as data, without raising. On
  \<^verbatim>\<open>["ERROR: bad pin"]\<close> the classifier binds \<open>ERROR\<close> and the line, then enters the
  \<^verbatim>\<open>else\<close> branch of the test for \<^verbatim>\<open>EXCEPTION:\<close> and looks the token \<^verbatim>\<open>ERROR:\<close> up
  in the enumeration, which raises \<^verbatim>\<open>KeyError\<close>.
\<close>

theorem clean_response_error_line:
  "clean_response [''ERROR: bad pin''] = Inl (KeyError ''ERROR:'')"
  by (simp add: clean_response_def classify_def py_split_def isspace_def exception_marker_def
      getitem_def members_def)

text \<open>
  Claim C3, as amended. Let the first token of the first line be the name of no member
  of the enumeration, and let neither \<^verbatim>\<open>ERROR:\<close> nor \<^verbatim>\<open>EXCEPTION:\<close> be among the first
  two tokens. Then the classifier raises \<^verbatim>\<open>KeyError\<close> with that token, whatever lines
  follow; it returns no dictionary.
\<close>

theorem clean_response_unknown_token:
  assumes "py_split line = token # rest"
      and "\<forall>m \<in> set members. name m \<noteq> token"
      and "''ERROR:'' \<notin> set (take 2 (token # rest))"
      and "''EXCEPTION:'' \<notin> set (take 2 (token # rest))"
  shows "clean_response (line # following) = Inl (KeyError token)"
  using assms
  by (simp add: clean_response_def classify_def exception_marker_def getitem_unknown)

text \<open>
  Witness for C3: the firmware's reply to a command it does not know,
  \<^verbatim>\<open>BLINK not understood\<close>, followed by the first line of its help text.
\<close>

theorem clean_response_unknown_token_witness:
  "py_split ''BLINK not understood'' = ''BLINK'' # [''not'', ''understood'']
   \<and> getitem ''BLINK'' = Inl (KeyError ''BLINK'')
   \<and> clean_response [''BLINK not understood'', ''    Commands:''] = Inl (KeyError ''BLINK'')"
proof -
  have tokens: "py_split ''BLINK not understood'' = ''BLINK'' # [''not'', ''understood'']"
    by (simp add: py_split_def isspace_def)
  have unknown: "\<forall>m \<in> set members. name m \<noteq> ''BLINK''"
    by (simp add: members_def)
  have no_error: "''ERROR:'' \<notin> set (take 2 (''BLINK'' # [''not'', ''understood'']))"
    by simp
  have no_exception: "''EXCEPTION:'' \<notin> set (take 2 (''BLINK'' # [''not'', ''understood'']))"
    by simp
  show ?thesis
    using clean_response_unknown_token [OF tokens unknown no_error no_exception] tokens
      getitem_unknown [OF unknown]
    by simp
qed

text \<open>
  Counterexample to C3 as stated: on \<^verbatim>\<open>["FOO bar"]\<close> the classifier raises and returns
  no dictionary of kind \<open>ERROR\<close>.
\<close>

theorem clean_response_unknown_token_counterexample:
  "clean_response [''FOO bar''] = Inl (KeyError ''FOO'')"
  by (simp add: clean_response_def classify_def py_split_def isspace_def exception_marker_def
      getitem_def members_def)




section \<open>Evaluation of the model\<close>

lemmas model_defs =
  SharedSerial_init_def new_queue_def obtain_serial_interface_def set_interface_def
  register_def start_def SerialInterface_init_def no_objects_def
  SharedSerial_close_service_def close_service_def close_def run_iteration_def leave_run_def
  handle_command_def submit_def get_def put_def serve_def unrelated_output_def
  transaction_def serial_command_str_def clean_response_item_def
  clean_response_def classify_def py_split_def isspace_def exception_marker_def
  error_marker_def getitem_def members_def CRLF_def LF_def send_message_def

lemmas fixture_defs =
  SERIAL_INTERFACE_def port_with_def dio_interface_def spi_interface_def dio_and_spi_def
  dio_silent_def dio_not_open_def dio_echoing_def spi_ready_def

section \<open>The caller's side of a request\<close>

text \<open>
  Claim C5. \<^verbatim>\<open>handle_command\<close> waits on the queue of its own channel, and \<open>get\<close>
  yields \<open>None\<close> where \<^verbatim>\<open>Queue.get(True, 10)\<close> raises \<^verbatim>\<open>Empty\<close> at its ceiling of ten
  seconds. If the queue of the channel is still empty after the worker had its turn,
  the call returns the dictionary of kind \<open>ERROR\<close> whose data is
  \<^verbatim>\<open>{"error": "No response from MCU"}\<close>, and so does the classifier on the empty list
  of lines; nothing is raised.
\<close>

theorem handle_command_no_response:
  assumes "queues (run_iteration (serial_interface self) (submit self command data w))
             ! response_q self = []"
  shows "fst (handle_command self command data w)
           = Inr [(''command'', Member ERROR),
                  (''data'', Dict [(''error'', ''No response from MCU'')])]
       \<and> clean_response []
           = Inr [(''command'', Member ERROR),
                  (''data'', Dict [(''error'', ''No response from MCU'')])]"
  using assms
  by (simp add: handle_command_def get_def clean_response_item_def clean_response_def
      classify_def)

text \<open>
  Witness for C5: the only service of the worker was closed, so its thread has left
  the loop and the request stays in the input queue.
\<close>

theorem handle_command_no_response_witness:
  "fst (handle_command (fst (dio_interface (port_with []))) VERSION (TextData [])
          (close_service DIO 0 (snd (dio_interface (port_with [])))))
     = Inr [(''command'', Member ERROR),
            (''data'', Dict [(''error'', ''No response from MCU'')])]"
proof -
  have empty_queue:
    "queues (run_iteration (serial_interface (fst (dio_interface (port_with []))))
      (submit (fst (dio_interface (port_with []))) VERSION (TextData [])
         (close_service DIO 0 (snd (dio_interface (port_with []))))))
      ! response_q (fst (dio_interface (port_with []))) = []"
    by (simp add: model_defs fixture_defs)
  show ?thesis
    using handle_command_no_response [OF empty_queue] by simp
qed

section \<open>Synthetic results of the worker\<close>

text \<open>
  Claim C4 says that after a silent read ceiling the caller gets an envelope of kind
  \<open>ERROR\<close> for the timeout. On a port that shows nothing at twenty looks the worker
  does put the one-line result \<^verbatim>\<open>["TIMEOUT"]\<close> on the queue of the requesting service,
  and the caller finds it there; but the classifier then looks \<^verbatim>\<open>TIMEOUT\<close> up in the
  enumeration, and \<^verbatim>\<open>handle_command\<close> raises \<^verbatim>\<open>KeyError\<close>.
\<close>

theorem handle_command_timeout:
  "queues (run_iteration 0 (submit (fst dio_silent) VERSION (TextData []) (snd dio_silent)))
     = [[Lines [''TIMEOUT'']]]
   \<and> fst (handle_command (fst dio_silent) VERSION (TextData []) (snd dio_silent))
     = Inl (KeyError ''TIMEOUT'')"
  by (simp add: model_defs fixture_defs eval_nat_numeral)

text \<open>
  Claim C6 says that a write to a port that is not open reaches the caller as an
  \<open>ERROR\<close> envelope and that nothing is raised. The worker catches
  \<^verbatim>\<open>PortNotOpenError\<close> and puts a bare string on the queue; the classifier takes the
  first element of it, the one-character string \<^verbatim>\<open>E\<close>, for the first line, and
  \<^verbatim>\<open>handle_command\<close> raises \<^verbatim>\<open>KeyError\<close>.
\<close>

theorem handle_command_port_not_open:
  "queues (run_iteration 0 (submit (fst dio_not_open) VERSION (TextData []) (snd dio_not_open)))
     = [[Text ''ERROR: Cannot send DIO command as serial port not open.'']]
   \<and> fst (handle_command (fst dio_not_open) VERSION (TextData []) (snd dio_not_open))
     = Inl (KeyError ''E'')"
  by (simp add: model_defs fixture_defs)

text \<open>
  Claim C9 says that \<^verbatim>\<open>SPI_SEND\<close> with the bytes \<^verbatim>\<open>de ad\<close> goes out as the line
  \<^verbatim>\<open>SPI_SEND de:ad\<close>. \<^verbatim>\<open>send_message\<close> hands the byte string to the worker as it is,
  and the worker's concatenation of the command line raises \<^verbatim>\<open>TypeError\<close>: the
  thread ends, nothing is written to the port, the reply of the device is not read,
  and the caller gets the envelope for no response.
\<close>

theorem send_message_bytes:
  "serial_command_str
     \<lparr>cmd_service = SPI, cmd_command = SPI_SEND, cmd_data = BytesData [0xDE, 0xAD]\<rparr>
     = Inl TypeError
   \<and> fst (send_message (fst spi_ready) [0xDE, 0xAD] (snd spi_ready))
     = Inr [(''command'', Member ERROR), (''data'', Dict [(''error'', ''No response from MCU'')])]
   \<and> map (\<lambda>self. (thread self, map_option written (serial_connection self)))
       (interfaces (snd (send_message (fst spi_ready) [0xDE, 0xAD] (snd spi_ready))))
     = [(Raised TypeError, Some [])]"
  by (simp add: model_defs fixture_defs)

section \<open>The echo of the command line\<close>

lemma poll_reply:
  assumes "incoming conn = replicate k [] @ response_text # later"
      and "k < n" and "response_text \<noteq> []"
  shows "poll n line conn =
           (Lines (if hd response_text = line then tl response_text else response_text),
            conn\<lparr>incoming := later\<rparr>)"
  using assms
proof (induction n arbitrary: k conn)
  case 0
  then show ?case by simp
next
  case (Suc n)
  show ?case
  proof (cases k)
    case 0
    with Suc.prems show ?thesis by simp
  next
    case (Suc k')
    with Suc.prems have "poll n line (conn\<lparr>incoming := replicate k' [] @ response_text # later\<rparr>)
        = (Lines (if hd response_text = line then tl response_text else response_text),
            conn\<lparr>incoming := replicate k' [] @ response_text # later, incoming := later\<rparr>)"
      by (intro Suc.IH) simp_all
    with Suc Suc.prems show ?thesis by simp
  qed
qed

lemma poll_silent:
  assumes "\<forall>seen \<in> set (take n (incoming conn)). seen = []"
  shows "fst (poll n line conn) = Lines [''TIMEOUT'']"
  using assms
  by (induction n arbitrary: conn) (auto split: list.splits)

text \<open>
  Claim C7. A running worker takes a request of a registered service from its input
  queue and writes the command line to the open port; the reply arrives at one of the
  twenty looks. If the first line of the reply equals the command line that was
  written, terminator included, the worker puts the lines after the first on the queue
  of the requesting service, otherwise all lines as they are; no other queue changes.
\<close>

theorem run_iteration_echo:
  assumes "i < length (interfaces w)"
      and "thread (interfaces w ! i) = Running"
      and "alive (interfaces w ! i)"
      and "serial_connection (interfaces w ! i) = Some conn"
      and "is_open conn"
      and "input_q (interfaces w ! i) = cmd # pending"
      and "map_of (service_qs (interfaces w ! i)) (cmd_service cmd) = Some q"
      and "q < length (queues w)"
      and "serial_command_str cmd = Inr line"
      and "incoming conn = replicate k [] @ response_text # later"
      and "k < 20"
      and "response_text \<noteq> []"
  shows "queues (run_iteration i w) =
           (queues w)[q := queues w ! q
              @ [Lines (if hd response_text = line then tl response_text else response_text)]]"
proof -
  have "poll 20 line (conn\<lparr>written := written conn @ [line]\<rparr>) =
           (Lines (if hd response_text = line then tl response_text else response_text),
            conn\<lparr>written := written conn @ [line], incoming := later\<rparr>)"
    using assms(10-12) by (intro poll_reply [where k = k]) simp_all
  then show ?thesis
    using assms(2-7,9)
    by (simp add: run_iteration_def serve_def transaction_def put_def set_interface_def)
qed

text \<open>
  Witness for C7: the device echoes \<^verbatim>\<open>DIO_SET 3 true\<close> and replies with the same
  words; the echo is dropped and the reply is delivered.
\<close>

theorem run_iteration_echo_witness:
  "queues (run_iteration 0
     (submit (fst dio_echoing) DIO_SET (TextData ''3 true'') (snd dio_echoing)))
     = [[Lines [''DIO_SET 3 true'' @ CRLF]]]"
proof -
  let ?conn = "port_with [[], [''DIO_SET 3 true'' @ CRLF, ''DIO_SET 3 true'' @ CRLF]]"
  let ?w = "submit (fst dio_echoing) DIO_SET (TextData ''3 true'') (snd dio_echoing)"
  let ?cmd = "\<lparr>cmd_service = DIO, cmd_command = DIO_SET, cmd_data = TextData ''3 true''\<rparr>"
  have valid: "0 < length (interfaces ?w)"
    by (simp add: model_defs fixture_defs)
  have running: "thread (interfaces ?w ! 0) = Running"
    by (simp add: model_defs fixture_defs)
  have alive: "alive (interfaces ?w ! 0)"
    by (simp add: model_defs fixture_defs)
  have conn: "serial_connection (interfaces ?w ! 0) = Some ?conn"
    by (simp add: model_defs fixture_defs)
  have opened: "is_open ?conn"
    by (simp add: fixture_defs)
  have taken: "input_q (interfaces ?w ! 0) = ?cmd # []"
    by (simp add: model_defs fixture_defs)
  have routed: "map_of (service_qs (interfaces ?w ! 0)) (cmd_service ?cmd) = Some 0"
    by (simp add: model_defs fixture_defs)
  have queue: "0 < length (queues ?w)"
    by (simp add: model_defs fixture_defs)
  have line: "serial_command_str ?cmd = Inr (''DIO_SET 3 true'' @ CRLF)"
    by (simp add: serial_command_str_def)
  have seen: "incoming ?conn = replicate 1 []
      @ [''DIO_SET 3 true'' @ CRLF, ''DIO_SET 3 true'' @ CRLF] # []"
    by (simp add: fixture_defs)
  have before: "queues ?w = [[]]"
    by (simp add: model_defs fixture_defs)
  have soon: "(1::nat) < 20"
    by simp
  have reply: "[''DIO_SET 3 true'' @ CRLF, ''DIO_SET 3 true'' @ CRLF] \<noteq> []"
    by simp
  show ?thesis
    unfolding run_iteration_echo
      [OF valid running alive conn opened taken routed queue line seen soon reply] before
    by simp
qed

section \<open>One worker for each port\<close>

lemma same_table_refl: "same_table w w"
  by (simp add: same_table_def)

lemma same_table_trans: "same_table w w' \<Longrightarrow> same_table w' w'' \<Longrightarrow> same_table w w''"
  by (simp add: same_table_def)

lemma map_update_same:
  "f y = f (xs ! i) \<Longrightarrow> map f (xs[i := y]) = map f xs"
proof (cases "i < length xs")
  case True
  assume "f y = f (xs ! i)"
  with True have "(map f xs)[i := f y] = (map f xs)[i := map f xs ! i]"
    by simp
  then show ?thesis
    by (simp add: map_update)
next
  case False
  then show ?thesis by (simp add: list_update_beyond)
qed

lemma same_table_set_interface:
  "serial_port self = serial_port (interfaces w ! i) \<Longrightarrow> same_table w (set_interface i self w)"
  by (simp add: same_table_def set_interface_def map_update_same)

lemma same_table_put: "same_table w (put q x w)"
  by (simp add: same_table_def put_def)

lemma same_table_get: "same_table w (snd (get q w))"
  by (simp add: same_table_def get_def split: list.splits)

lemma same_table_unrelated_output:
  "self = interfaces w ! i \<Longrightarrow> same_table w (unrelated_output i self conn w)"
  by (auto simp: unrelated_output_def leave_run_def Let_def same_table_refl
      same_table_def put_def set_interface_def map_update_same
      split: list.splits option.splits)

lemma same_table_serve:
  "self = interfaces w ! i \<Longrightarrow> same_table w (serve i self conn cmd pending w)"
  by (auto simp: serve_def leave_run_def Let_def same_table_def put_def set_interface_def
      map_update_same split: option.splits sum.splits prod.splits)

lemma same_table_run_iteration: "same_table w (run_iteration i w)"
  by (auto simp: run_iteration_def Let_def same_table_refl same_table_unrelated_output
      same_table_serve same_table_set_interface leave_run_def
      split: thread_state.splits option.splits list.splits)

lemma same_table_submit: "same_table w (submit self command data w)"
  by (simp add: submit_def Let_def same_table_set_interface)

lemma same_table_handle_command:
  "handle_command self command data w = (result, w') \<Longrightarrow> same_table w w'"
proof -
  assume h: "handle_command self command data w = (result, w')"
  let ?w2 = "run_iteration (serial_interface self) (submit self command data w)"
  from h have "w' = snd (get (response_q self) ?w2)"
    by (auto simp: handle_command_def Let_def split: prod.splits)
  moreover have "same_table w ?w2"
    using same_table_submit same_table_run_iteration same_table_trans by blast
  ultimately show ?thesis
    using same_table_get same_table_trans by blast
qed

lemma same_table_close: "same_table w (close i w)"
proof -
  have "same_table w (set_interface i ((interfaces w ! i)\<lparr>alive := False\<rparr>) w)"
    by (simp add: same_table_set_interface)
  then show ?thesis
    unfolding close_def using same_table_run_iteration same_table_trans by blast
qed

lemma same_table_close_service: "same_table w (close_service service i w)"
proof -
  let ?w' = "set_interface i
     ((interfaces w ! i)\<lparr>service_qs := AList.delete service (service_qs (interfaces w ! i))\<rparr>) w"
  have "same_table w ?w'"
    by (simp add: same_table_set_interface)
  then show ?thesis
    unfolding close_service_def Let_def
    using same_table_close same_table_trans by (auto split: if_splits)
qed

lemma table_matches_same: "same_table w w' \<Longrightarrow> table_matches w \<Longrightarrow> table_matches w'"
proof -
  assume s: "same_table w w'" and t: "table_matches w"
  from s have len: "length (interfaces w') = length (interfaces w)"
    unfolding same_table_def by (metis length_map)
  from s have nth: "\<And>i. i < length (interfaces w) \<Longrightarrow>
      serial_port (interfaces w' ! i) = serial_port (interfaces w ! i)"
    unfolding same_table_def by (metis len nth_map)
  from s have tab: "serial_interfaces w' = serial_interfaces w"
    by (simp add: same_table_def)
  show ?thesis
    using t unfolding table_matches_def tab len by (metis nth)
qed

lemma channels_ok_same: "same_table w w' \<Longrightarrow> channels_ok w cs \<Longrightarrow> channels_ok w' cs"
  by (simp add: same_table_def channels_ok_def)

lemma threads_ok_nth: "threads_ok w \<Longrightarrow> i < length (interfaces w) \<Longrightarrow> thread_consistent (interfaces w ! i)"
  by (simp add: threads_ok_def)

lemma threads_ok_set_interface:
  "threads_ok w \<Longrightarrow> thread_consistent self \<Longrightarrow> threads_ok (set_interface i self w)"
  unfolding threads_ok_def set_interface_def
  using set_update_subset_insert [of "interfaces w" i self] by auto

lemma threads_ok_put: "threads_ok (put q x w) = threads_ok w"
  by (simp add: threads_ok_def put_def)

lemma threads_ok_get: "threads_ok (snd (get q w)) = threads_ok w"
  by (simp add: threads_ok_def get_def split: list.splits)

lemma thread_consistent_leave_run:
  "how \<noteq> Running \<Longrightarrow> thread_consistent (leave_run how conn self)"
  by (simp add: thread_consistent_def leave_run_def released_def)

lemma thread_consistent_fields:
  "thread self' = thread self \<Longrightarrow> serial_connection self' = serial_connection self \<Longrightarrow>
   thread_consistent self \<Longrightarrow> thread_consistent self'"
  by (auto simp: thread_consistent_def released_def split: if_splits)

lemma thread_consistent_running:
  "thread self = Running \<Longrightarrow> serial_connection self = Some conn \<Longrightarrow> thread_consistent self"
  by (simp add: thread_consistent_def)

lemma threads_ok_unrelated_output:
  assumes "threads_ok w" and "thread self = Running"
  shows "threads_ok (unrelated_output i self conn w)"
  using assms
  by (auto simp: unrelated_output_def Let_def threads_ok_put
      intro!: threads_ok_set_interface thread_consistent_leave_run
        thread_consistent_running [where conn = "conn\<lparr>incoming := tl (incoming conn)\<rparr>"]
      split: list.splits option.splits)

lemma threads_ok_serve:
  assumes "threads_ok w" and "thread self = Running"
  shows "threads_ok (serve i self conn cmd pending w)"
  using assms
  by (auto simp: serve_def Let_def threads_ok_put thread_consistent_def
      intro!: threads_ok_set_interface thread_consistent_leave_run
      split: option.splits sum.splits prod.splits)

lemma threads_ok_run_iteration:
  assumes "threads_ok w"
  shows "threads_ok (run_iteration i w)"
  using assms
  by (auto simp: run_iteration_def Let_def threads_ok_unrelated_output threads_ok_serve
      intro!: threads_ok_set_interface thread_consistent_leave_run
      split: thread_state.splits option.splits list.splits)

lemma threads_ok_alter:
  assumes "threads_ok w" and "i < length (interfaces w)"
      and "thread self = thread (interfaces w ! i)"
      and "serial_connection self = serial_connection (interfaces w ! i)"
  shows "threads_ok (set_interface i self w)"
  using assms
  by (auto intro!: threads_ok_set_interface
      intro: thread_consistent_fields [OF _ _ threads_ok_nth])

lemma threads_ok_handle_command:
  assumes "threads_ok w" and "serial_interface self < length (interfaces w)"
      and "handle_command self command data w = (result, w')"
  shows "threads_ok w'"
proof -
  let ?w1 = "submit self command data w"
  let ?w2 = "run_iteration (serial_interface self) ?w1"
  have "threads_ok ?w1"
    unfolding submit_def Let_def using assms(1,2) by (intro threads_ok_alter) simp_all
  then have "threads_ok ?w2"
    by (rule threads_ok_run_iteration)
  moreover from assms(3) have "w' = snd (get (response_q self) ?w2)"
    by (auto simp: handle_command_def Let_def split: prod.splits)
  ultimately show ?thesis
    by (simp add: threads_ok_get)
qed

lemma interfaces_set_interface:
  "interfaces (set_interface i self w) = (interfaces w)[i := self]"
  by (simp add: set_interface_def)

lemma threads_ok_close:
  assumes "threads_ok w" and "i < length (interfaces w)"
  shows "threads_ok (close i w)"
  unfolding close_def using assms
  by (intro threads_ok_run_iteration threads_ok_alter) simp_all

lemma threads_ok_close_service:
  assumes "threads_ok w" and "i < length (interfaces w)"
  shows "threads_ok (close_service service i w)"
proof -
  let ?w' = "set_interface i
     ((interfaces w ! i)\<lparr>service_qs := AList.delete service (service_qs (interfaces w ! i))\<rparr>) w"
  have ok: "threads_ok ?w'"
    using assms by (intro threads_ok_alter) simp_all
  have "i < length (interfaces ?w')"
    using assms(2) by (simp add: interfaces_set_interface)
  with ok have "threads_ok (close i ?w')"
    by (rule threads_ok_close)
  with ok show ?thesis
    by (simp add: close_service_def Let_def)
qed

lemma SharedSerial_init_known:
  assumes "map_of (serial_interfaces w) port = Some i"
  shows "SharedSerial_init port service conn w =
           (\<lparr>shared_port = port, shared_service = service, response_q = length (queues w),
             serial_interface = i\<rparr>,
            set_interface i (register service (length (queues w)) (interfaces w ! i))
              (w\<lparr>queues := queues w @ [[]]\<rparr>))"
  using assms
  by (simp add: SharedSerial_init_def new_queue_def obtain_serial_interface_def)

lemma SharedSerial_init_new:
  assumes "map_of (serial_interfaces w) port = None"
  shows "SharedSerial_init port service conn w =
           (\<lparr>shared_port = port, shared_service = service, response_q = length (queues w),
             serial_interface = length (interfaces w)\<rparr>,
            w\<lparr>queues := queues w @ [[]],
              interfaces := interfaces w
                @ [register service (length (queues w)) (start conn (SerialInterface_init port))],
              serial_interfaces :=
                AList.update port (length (interfaces w)) (serial_interfaces w)\<rparr>)"
  using assms
  by (simp add: SharedSerial_init_def new_queue_def obtain_serial_interface_def
      update_conv' set_interface_def)

lemma invariant_init:
  assumes t: "table_matches w" and th: "threads_ok w" and c: "channels_ok w channels"
      and i: "SharedSerial_init port service conn w = (self, w')"
  shows "table_matches w' \<and> threads_ok w' \<and> channels_ok w' (self # channels)"
proof (cases "map_of (serial_interfaces w) port")
  case None
  note eq = i [unfolded SharedSerial_init_new [OF None]]
  from eq have w': "w' = w\<lparr>queues := queues w @ [[]],
              interfaces := interfaces w
                @ [register service (length (queues w)) (start conn (SerialInterface_init port))],
              serial_interfaces :=
                AList.update port (length (interfaces w)) (serial_interfaces w)\<rparr>"
    and self: "self = \<lparr>shared_port = port, shared_service = service,
             response_q = length (queues w), serial_interface = length (interfaces w)\<rparr>"
    by simp_all
  have port_new: "serial_port (register service (length (queues w))
                    (start conn (SerialInterface_init port))) = port"
    by (simp add: register_def start_def SerialInterface_init_def)
  have t': "table_matches w'"
    unfolding table_matches_def
  proof (intro allI)
    fix p j
    show "map_of (serial_interfaces w') p = Some j
            \<longleftrightarrow> j < length (interfaces w') \<and> serial_port (interfaces w' ! j) = p"
    proof (cases "p = port")
      case True
      have "\<And>k. k < length (interfaces w) \<Longrightarrow> serial_port (interfaces w ! k) \<noteq> port"
        using t None unfolding table_matches_def by (metis option.distinct(1))
      then show ?thesis
        using True port_new
        by (auto simp: w' update_conv' nth_append less_Suc_eq)
    next
      case False
      have "map_of (serial_interfaces w) p = Some j
            \<longleftrightarrow> j < length (interfaces w) \<and> serial_port (interfaces w ! j) = p"
        using t unfolding table_matches_def by blast
      then show ?thesis
        using False port_new
        by (auto simp: w' update_conv' nth_append less_Suc_eq)
    qed
  qed
  have th': "threads_ok w'"
    using th
    by (auto simp: threads_ok_def w' thread_consistent_def register_def start_def)
  have c': "channels_ok w' (self # channels)"
    using c None
    by (auto simp: channels_ok_def w' self update_conv')
  from t' th' c' show ?thesis by blast
next
  case (Some k)
  note eq = i [unfolded SharedSerial_init_known [OF Some]]
  let ?w1 = "w\<lparr>queues := queues w @ [[]]\<rparr>"
  from eq have w': "w' = set_interface k
      (register service (length (queues w)) (interfaces w ! k)) ?w1"
    and self: "self = \<lparr>shared_port = port, shared_service = service,
             response_q = length (queues w), serial_interface = k\<rparr>"
    by simp_all
  have k: "k < length (interfaces w)"
    using t Some unfolding table_matches_def by blast
  have s1: "same_table w ?w1"
    by (simp add: same_table_def)
  have "same_table ?w1 w'"
    unfolding w' by (intro same_table_set_interface) (simp add: register_def)
  with s1 have s: "same_table w w'"
    by (rule same_table_trans)
  have "threads_ok ?w1"
    using th by (simp add: threads_ok_def)
  then have th': "threads_ok w'"
    unfolding w' using k by (intro threads_ok_alter) (simp_all add: register_def)
  have "channels_ok w' channels"
    using s c by (rule channels_ok_same)
  moreover have "map_of (serial_interfaces w') port = Some k"
    using s Some by (simp add: same_table_def)
  ultimately have c': "channels_ok w' (self # channels)"
    by (simp add: channels_ok_def self)
  from table_matches_same [OF s t] th' c' show ?thesis by blast
qed

lemma reachable_invariant:
  "reachable w channels \<Longrightarrow> table_matches w \<and> threads_ok w \<and> channels_ok w channels"
proof (induction rule: reachable.induct)
  case initial
  show ?case
    by (simp add: table_matches_def threads_ok_def channels_ok_def no_objects_def)
next
  case (construct w channels port service conn self w')
  then show ?case
    using invariant_init by blast
next
  case (request w channels self command data result w')
  then have "map_of (serial_interfaces w) (shared_port self) = Some (serial_interface self)"
    by (simp add: channels_ok_def)
  with request.IH have valid: "serial_interface self < length (interfaces w)"
    unfolding table_matches_def by blast
  have s: "same_table w w'"
    using request.hyps(3) by (rule same_table_handle_command)
  from request.IH valid request.hyps(3) have "threads_ok w'"
    using threads_ok_handle_command by blast
  with request.IH s show ?case
    using table_matches_same channels_ok_same by blast
next
  case (closing w channels self service w')
  from closing.hyps(3) obtain i where
    i: "map_of (serial_interfaces w) (shared_port self) = Some i"
    and w': "w' = close_service service i w"
    by (auto simp: SharedSerial_close_service_def split: option.splits)
  from closing.IH i have valid: "i < length (interfaces w)"
    unfolding table_matches_def by blast
  have s: "same_table w w'"
    unfolding w' by (rule same_table_close_service)
  from closing.IH valid have "threads_ok w'"
    unfolding w' using threads_ok_close_service by blast
  with closing.IH s show ?case
    using table_matches_same channels_ok_same by blast
next
  case (pass w channels i)
  have s: "same_table w (run_iteration i w)"
    by (rule same_table_run_iteration)
  from pass.IH have "threads_ok (run_iteration i w)"
    using threads_ok_run_iteration by blast
  with pass.IH s show ?case
    using table_matches_same channels_ok_same by blast
qed

lemma delete_empty: "AList.delete k al = [] \<longleftrightarrow> (\<forall>other \<in> fst ` set al. other = k)"
  by (induction al) auto

lemma close_service_other_remains:
  assumes "i < length (interfaces w)"
      and "\<exists>other \<in> fst ` set (service_qs (interfaces w ! i)). other \<noteq> service"
  shows "interfaces (close_service service i w) ! i =
           (interfaces w ! i)\<lparr>service_qs := AList.delete service (service_qs (interfaces w ! i))\<rparr>"
proof -
  from assms(2) have "AList.delete service (service_qs (interfaces w ! i)) \<noteq> []"
    unfolding delete_empty by blast
  with assms(1) show ?thesis
    by (simp add: close_service_def Let_def set_interface_def)
qed

lemma close_service_last:
  assumes "i < length (interfaces w)"
      and "thread_consistent (interfaces w ! i)"
      and "\<forall>other \<in> fst ` set (service_qs (interfaces w ! i)). other = service"
  shows "\<not> alive (interfaces (close_service service i w) ! i)
         \<and> released (interfaces (close_service service i w) ! i)"
proof -
  from assms(3) have "AList.delete service (service_qs (interfaces w ! i)) = []"
    unfolding delete_empty by blast
  with assms(1,2) show ?thesis
    by (auto simp: close_service_def close_def run_iteration_def Let_def set_interface_def
        leave_run_def thread_consistent_def released_def
        split: thread_state.splits option.splits if_splits)
qed

lemma init_effect:
  assumes t: "table_matches w"
      and i: "SharedSerial_init port service conn w = (c', w')"
  shows "shared_port c' = port \<and> shared_service c' = service
       \<and> map_of (serial_interfaces w') port = Some (serial_interface c')
       \<and> (case map_of (serial_interfaces w) port of
             None \<Rightarrow>
               serial_interface c' = length (interfaces w)
             \<and> length (interfaces w') = Suc (length (interfaces w))
             \<and> serial_port (interfaces w' ! serial_interface c') = port
             \<and> alive (interfaces w' ! serial_interface c')
             \<and> thread (interfaces w' ! serial_interface c') = Running
             \<and> serial_connection (interfaces w' ! serial_interface c') = Some conn
             \<and> service_qs (interfaces w' ! serial_interface c') = [(service, response_q c')]
           | Some k \<Rightarrow>
               serial_interface c' = k
             \<and> length (interfaces w') = length (interfaces w)
             \<and> alive (interfaces w' ! k) = alive (interfaces w ! k)
             \<and> thread (interfaces w' ! k) = thread (interfaces w ! k)
             \<and> serial_connection (interfaces w' ! k) = serial_connection (interfaces w ! k)
             \<and> service_qs (interfaces w' ! k)
                 = AList.update service (response_q c') (service_qs (interfaces w ! k)))"
proof (cases "map_of (serial_interfaces w) port")
  case None
  from i [unfolded SharedSerial_init_new [OF None]] show ?thesis
    by (auto simp: None update_conv' register_def start_def SerialInterface_init_def)
next
  case (Some k)
  have k: "k < length (interfaces w)"
    using t Some unfolding table_matches_def by blast
  from i [unfolded SharedSerial_init_known [OF Some]] k show ?thesis
    by (auto simp: Some set_interface_def register_def)
qed

lemma close_service_effect:
  assumes "i < length (interfaces w)"
  shows "service_qs (interfaces (close_service service i w) ! i)
           = AList.delete service (service_qs (interfaces w ! i))
       \<and> length (interfaces (close_service service i w)) = length (interfaces w)"
  using assms
  by (auto simp: close_service_def close_def run_iteration_def Let_def set_interface_def
      leave_run_def split: thread_state.splits option.splits)

text \<open>
  Claim C8. In every state the program reaches, no two worker objects have the same
  port, so a port has at most one worker, live or not, and every channel holds the
  worker that the table has for its port. Constructing a channel on a port without
  a worker makes one worker, alive and running, with the service of the channel as
  its only registration; constructing it on a port that has a worker makes none,
  leaves that worker as it is and adds the registration, so that a channel
  constructed on the port of an existing channel gets the worker of that channel.
  Closing a service of a channel never raises and removes exactly the registration of
  that service; while a service other than the closed one is registered with the
  worker, the worker keeps its \<^verbatim>\<open>alive\<close> flag, its thread and its connection as they
  were; when no other service is registered, \<^verbatim>\<open>alive\<close> is cleared, the thread is no
  longer running and the connection is closed.
\<close>

theorem one_worker_per_port:
  assumes "reachable w channels"
  shows "(\<forall>i < length (interfaces w). \<forall>j < length (interfaces w).
            serial_port (interfaces w ! i) = serial_port (interfaces w ! j) \<longrightarrow> i = j)
       \<and> (\<forall>c \<in> set channels.
            map_of (serial_interfaces w) (shared_port c) = Some (serial_interface c)
          \<and> serial_interface c < length (interfaces w))
       \<and> (\<forall>port service conn c' w'.
            SharedSerial_init port service conn w = (c', w') \<longrightarrow>
              shared_port c' = port \<and> shared_service c' = service
            \<and> map_of (serial_interfaces w') port = Some (serial_interface c')
            \<and> (case map_of (serial_interfaces w) port of
                  None \<Rightarrow>
                    serial_interface c' = length (interfaces w)
                  \<and> length (interfaces w') = Suc (length (interfaces w))
                  \<and> serial_port (interfaces w' ! serial_interface c') = port
                  \<and> alive (interfaces w' ! serial_interface c')
                  \<and> thread (interfaces w' ! serial_interface c') = Running
                  \<and> serial_connection (interfaces w' ! serial_interface c') = Some conn
                  \<and> service_qs (interfaces w' ! serial_interface c')
                      = [(service, response_q c')]
                | Some k \<Rightarrow>
                    serial_interface c' = k
                  \<and> length (interfaces w') = length (interfaces w)
                  \<and> alive (interfaces w' ! k) = alive (interfaces w ! k)
                  \<and> thread (interfaces w' ! k) = thread (interfaces w ! k)
                  \<and> serial_connection (interfaces w' ! k)
                      = serial_connection (interfaces w ! k)
                  \<and> service_qs (interfaces w' ! k)
                      = AList.update service (response_q c') (service_qs (interfaces w ! k))))
       \<and> (\<forall>c \<in> set channels. \<forall>service conn c' w'.
            SharedSerial_init (shared_port c) service conn w = (c', w') \<longrightarrow>
              serial_interface c' = serial_interface c
              \<and> length (interfaces w') = length (interfaces w))
       \<and> (\<forall>c \<in> set channels. \<forall>service.
            \<exists>w'. SharedSerial_close_service c service w = Inr w'
              \<and> length (interfaces w') = length (interfaces w)
              \<and> service_qs (interfaces w' ! serial_interface c)
                  = AList.delete service (service_qs (interfaces w ! serial_interface c))
              \<and> ((\<exists>other \<in> fst ` set (service_qs (interfaces w ! serial_interface c)).
                     other \<noteq> service) \<longrightarrow>
                   alive (interfaces w' ! serial_interface c)
                     = alive (interfaces w ! serial_interface c)
                 \<and> thread (interfaces w' ! serial_interface c)
                     = thread (interfaces w ! serial_interface c)
                 \<and> serial_connection (interfaces w' ! serial_interface c)
                     = serial_connection (interfaces w ! serial_interface c))
              \<and> ((\<forall>other \<in> fst ` set (service_qs (interfaces w ! serial_interface c)).
                     other = service) \<longrightarrow>
                   \<not> alive (interfaces w' ! serial_interface c)
                 \<and> released (interfaces w' ! serial_interface c)))"
proof -
  from assms have t: "table_matches w" and th: "threads_ok w" and c: "channels_ok w channels"
    using reachable_invariant by blast+
  have one: "\<forall>i < length (interfaces w). \<forall>j < length (interfaces w).
            serial_port (interfaces w ! i) = serial_port (interfaces w ! j) \<longrightarrow> i = j"
    using t unfolding table_matches_def by (metis option.inject)
  have held: "\<forall>c \<in> set channels.
            map_of (serial_interfaces w) (shared_port c) = Some (serial_interface c)
          \<and> serial_interface c < length (interfaces w)"
    using t c unfolding table_matches_def channels_ok_def by blast
  have made: "\<forall>port service conn c' w'.
            SharedSerial_init port service conn w = (c', w') \<longrightarrow>
              shared_port c' = port \<and> shared_service c' = service
            \<and> map_of (serial_interfaces w') port = Some (serial_interface c')
            \<and> (case map_of (serial_interfaces w) port of
                  None \<Rightarrow>
                    serial_interface c' = length (interfaces w)
                  \<and> length (interfaces w') = Suc (length (interfaces w))
                  \<and> serial_port (interfaces w' ! serial_interface c') = port
                  \<and> alive (interfaces w' ! serial_interface c')
                  \<and> thread (interfaces w' ! serial_interface c') = Running
                  \<and> serial_connection (interfaces w' ! serial_interface c') = Some conn
                  \<and> service_qs (interfaces w' ! serial_interface c')
                      = [(service, response_q c')]
                | Some k \<Rightarrow>
                    serial_interface c' = k
                  \<and> length (interfaces w') = length (interfaces w)
                  \<and> alive (interfaces w' ! k) = alive (interfaces w ! k)
                  \<and> thread (interfaces w' ! k) = thread (interfaces w ! k)
                  \<and> serial_connection (interfaces w' ! k)
                      = serial_connection (interfaces w ! k)
                  \<and> service_qs (interfaces w' ! k)
                      = AList.update service (response_q c') (service_qs (interfaces w ! k)))"
    using init_effect [OF t] by blast
  have shared: "\<forall>c \<in> set channels. \<forall>service conn c' w'.
            SharedSerial_init (shared_port c) service conn w = (c', w') \<longrightarrow>
              serial_interface c' = serial_interface c
              \<and> length (interfaces w') = length (interfaces w)"
  proof (intro ballI allI impI)
    fix c service conn c' w'
    assume "c \<in> set channels"
      and init: "SharedSerial_init (shared_port c) service conn w = (c', w')"
    then have "map_of (serial_interfaces w) (shared_port c) = Some (serial_interface c)"
      using c by (simp add: channels_ok_def)
    from init [unfolded SharedSerial_init_known [OF this]]
    show "serial_interface c' = serial_interface c
              \<and> length (interfaces w') = length (interfaces w)"
      by (auto simp: set_interface_def)
  qed
  have closing: "\<forall>c \<in> set channels. \<forall>service.
            \<exists>w'. SharedSerial_close_service c service w = Inr w'
              \<and> length (interfaces w') = length (interfaces w)
              \<and> service_qs (interfaces w' ! serial_interface c)
                  = AList.delete service (service_qs (interfaces w ! serial_interface c))
              \<and> ((\<exists>other \<in> fst ` set (service_qs (interfaces w ! serial_interface c)).
                     other \<noteq> service) \<longrightarrow>
                   alive (interfaces w' ! serial_interface c)
                     = alive (interfaces w ! serial_interface c)
                 \<and> thread (interfaces w' ! serial_interface c)
                     = thread (interfaces w ! serial_interface c)
                 \<and> serial_connection (interfaces w' ! serial_interface c)
                     = serial_connection (interfaces w ! serial_interface c))
              \<and> ((\<forall>other \<in> fst ` set (service_qs (interfaces w ! serial_interface c)).
                     other = service) \<longrightarrow>
                   \<not> alive (interfaces w' ! serial_interface c)
                 \<and> released (interfaces w' ! serial_interface c))"
  proof (intro ballI allI)
    fix c service
    assume "c \<in> set channels"
    then have look: "map_of (serial_interfaces w) (shared_port c) = Some (serial_interface c)"
      using c by (simp add: channels_ok_def)
    with t have valid: "serial_interface c < length (interfaces w)"
      unfolding table_matches_def by blast
    let ?w' = "close_service service (serial_interface c) w"
    have res: "SharedSerial_close_service c service w = Inr ?w'"
      by (simp add: SharedSerial_close_service_def look)
    note effect = close_service_effect [OF valid, of service]
    have stays: "(\<exists>other \<in> fst ` set (service_qs (interfaces w ! serial_interface c)).
                     other \<noteq> service) \<longrightarrow>
                   alive (interfaces ?w' ! serial_interface c)
                     = alive (interfaces w ! serial_interface c)
                 \<and> thread (interfaces ?w' ! serial_interface c)
                     = thread (interfaces w ! serial_interface c)
                 \<and> serial_connection (interfaces ?w' ! serial_interface c)
                     = serial_connection (interfaces w ! serial_interface c)"
      using close_service_other_remains [OF valid] by simp
    have stops: "(\<forall>other \<in> fst ` set (service_qs (interfaces w ! serial_interface c)).
                     other = service) \<longrightarrow>
                   \<not> alive (interfaces ?w' ! serial_interface c)
                 \<and> released (interfaces ?w' ! serial_interface c)"
      using close_service_last [OF valid threads_ok_nth [OF th valid]] by blast
    from res effect stays stops
    show "\<exists>w'. SharedSerial_close_service c service w = Inr w'
              \<and> length (interfaces w') = length (interfaces w)
              \<and> service_qs (interfaces w' ! serial_interface c)
                  = AList.delete service (service_qs (interfaces w ! serial_interface c))
              \<and> ((\<exists>other \<in> fst ` set (service_qs (interfaces w ! serial_interface c)).
                     other \<noteq> service) \<longrightarrow>
                   alive (interfaces w' ! serial_interface c)
                     = alive (interfaces w ! serial_interface c)
                 \<and> thread (interfaces w' ! serial_interface c)
                     = thread (interfaces w ! serial_interface c)
                 \<and> serial_connection (interfaces w' ! serial_interface c)
                     = serial_connection (interfaces w ! serial_interface c))
              \<and> ((\<forall>other \<in> fst ` set (service_qs (interfaces w ! serial_interface c)).
                     other = service) \<longrightarrow>
                   \<not> alive (interfaces w' ! serial_interface c)
                 \<and> released (interfaces w' ! serial_interface c))"
      by blast
  qed
  from one held made shared closing show ?thesis by blast
qed

text \<open>
  Witness for C8: a digital channel and an SPI channel on one port share the worker
  and are both registered with it; closing the digital service leaves the SPI
  registration and the worker running, closing the SPI service after that leaves no
  registration and stops the worker.
\<close>

theorem one_worker_per_port_witness:
  "serial_interface (fst (snd dio_and_spi)) = serial_interface (fst dio_and_spi)
   \<and> service_qs (interfaces (snd (snd dio_and_spi)) ! 0) = [(DIO, 0), (SPI, 1)]
   \<and> (\<exists>w'. SharedSerial_close_service (fst dio_and_spi) DIO (snd (snd dio_and_spi)) = Inr w'
          \<and> service_qs (interfaces w' ! 0) = [(SPI, 1)]
          \<and> alive (interfaces w' ! 0) \<and> thread (interfaces w' ! 0) = Running
          \<and> (\<exists>w''. SharedSerial_close_service (fst (snd dio_and_spi)) SPI w' = Inr w''
                \<and> service_qs (interfaces w'' ! 0) = []
                \<and> \<not> alive (interfaces w'' ! 0) \<and> released (interfaces w'' ! 0)))"
proof -
  let ?dio = "fst dio_and_spi"
  let ?spi = "fst (snd dio_and_spi)"
  let ?w = "snd (snd dio_and_spi)"
  let ?w1 = "snd (dio_interface (port_with []))"
  have dio: "SharedSerial_init SERIAL_INTERFACE DIO (port_with []) no_objects = (?dio, ?w1)"
    by (simp add: dio_and_spi_def dio_interface_def split: prod.splits)
  have spi: "SharedSerial_init SERIAL_INTERFACE SPI (port_with []) ?w1 = (?spi, ?w)"
    by (simp add: dio_and_spi_def split: prod.splits)
  have one: "reachable ?w1 [?dio]"
    using reachable.construct [OF reachable.initial dio] .
  have both: "reachable ?w [?spi, ?dio]"
    using reachable.construct [OF one spi] .
  have port: "shared_port ?dio = SERIAL_INTERFACE"
    by (simp add: model_defs fixture_defs)
  have first: "?dio \<in> set [?dio]"
    by simp
  note shared = one_worker_per_port [OF one, THEN conjunct2, THEN conjunct2, THEN conjunct2,
      THEN conjunct1, THEN bspec, OF first, THEN spec, THEN spec, THEN spec, THEN spec,
      THEN mp, THEN conjunct1]
  have same: "serial_interface ?spi = serial_interface ?dio"
    using spi unfolding port [symmetric] by (rule shared)
  have worker: "serial_interface ?dio = 0" "serial_interface ?spi = 0"
    by (simp_all add: model_defs fixture_defs)
  have services: "service_qs (interfaces ?w ! 0) = [(DIO, 0), (SPI, 1)]"
    by (simp add: model_defs fixture_defs)
  have before: "alive (interfaces ?w ! 0)" "thread (interfaces ?w ! 0) = Running"
    by (simp_all add: model_defs fixture_defs)
  have second: "?dio \<in> set [?spi, ?dio]"
    by simp
  note closing_dio = one_worker_per_port [OF both, THEN conjunct2, THEN conjunct2,
      THEN conjunct2, THEN conjunct2, THEN bspec, OF second, THEN spec, of DIO]
  from closing_dio obtain w' where
    closed: "SharedSerial_close_service ?dio DIO ?w = Inr w'"
    and removed: "service_qs (interfaces w' ! serial_interface ?dio)
                  = AList.delete DIO (service_qs (interfaces ?w ! serial_interface ?dio))"
    and stays: "(\<exists>other \<in> fst ` set (service_qs (interfaces ?w ! serial_interface ?dio)).
                     other \<noteq> DIO) \<longrightarrow>
                   alive (interfaces w' ! serial_interface ?dio)
                     = alive (interfaces ?w ! serial_interface ?dio)
                 \<and> thread (interfaces w' ! serial_interface ?dio)
                     = thread (interfaces ?w ! serial_interface ?dio)
                 \<and> serial_connection (interfaces w' ! serial_interface ?dio)
                     = serial_connection (interfaces ?w ! serial_interface ?dio)"
    by (elim exE conjE)
  from removed have left: "service_qs (interfaces w' ! 0) = [(SPI, 1)]"
    by (simp add: worker services)
  from stays have live: "alive (interfaces w' ! 0)" "thread (interfaces w' ! 0) = Running"
    by (simp_all add: worker services before)
  have after: "reachable w' [?spi, ?dio]"
    using reachable.closing [OF both second closed] .
  have third: "?spi \<in> set [?spi, ?dio]"
    by simp
  note closing_spi = one_worker_per_port [OF after, THEN conjunct2, THEN conjunct2,
      THEN conjunct2, THEN conjunct2, THEN bspec, OF third, THEN spec, of SPI]
  from closing_spi obtain w'' where
    closed': "SharedSerial_close_service ?spi SPI w' = Inr w''"
    and removed': "service_qs (interfaces w'' ! serial_interface ?spi)
                  = AList.delete SPI (service_qs (interfaces w' ! serial_interface ?spi))"
    and stops: "(\<forall>other \<in> fst ` set (service_qs (interfaces w' ! serial_interface ?spi)).
                     other = SPI) \<longrightarrow>
                   \<not> alive (interfaces w'' ! serial_interface ?spi)
                 \<and> released (interfaces w'' ! serial_interface ?spi)"
    by (elim exE conjE)
  from removed' have none: "service_qs (interfaces w'' ! 0) = []"
    by (simp add: worker left)
  from stops have dead: "\<not> alive (interfaces w'' ! 0)" "released (interfaces w'' ! 0)"
    by (simp_all add: worker left)
  from same services closed left live closed' none dead show ?thesis
    by blast
qed

end
